theory Spec2Isabelle
  imports Main
begin

section \<open>The data of \<^verbatim>\<open>git-sync-service.ts\<close>\<close>

text \<open>
  \<^verbatim>\<open>GitSyncService\<close> drives two workflows, \<^verbatim>\<open>sync\<close> and \<^verbatim>\<open>publish\<close>, through four
  injected collaborators: \<^verbatim>\<open>git\<close>, \<^verbatim>\<open>repositoryTracker\<close>, \<^verbatim>\<open>messageService\<close> and
  \<^verbatim>\<open>quickOpenService\<close>. The service owns one mutable field, \<^verbatim>\<open>_syncing\<close>. Every call
  to a collaborator is recorded, in program order, in a list of events kept beside that
  field; what a collaborator answers is read from an environment record.
\<close>

text \<open>
  Modelled from the spec: the types \<^verbatim>\<open>Repository\<close> and the repository status are imported
  from \<^verbatim>\<open>../common\<close>, which is not part of the sources. A repository is an opaque
  object; a status has the optional fields \<^verbatim>\<open>branch\<close>, \<^verbatim>\<open>upstreamBranch\<close> and
  \<^verbatim>\<open>aheadBehind\<close>, the last with the counts \<^verbatim>\<open>ahead\<close> and \<^verbatim>\<open>behind\<close>.
\<close>

datatype repository = Repository (localUri: string)

record aheadBehind =
  ahead :: nat
  behind :: nat

record status =
  branch :: "string option"
  upstreamBranch :: "string option"
  aheadBehind :: "aheadBehind option"

text \<open>
  A value a collaborator's promise may reject with. The catch clauses receive it as
  \<^verbatim>\<open>any\<close>: either an object, of which only the property \<^verbatim>\<open>message\<close> is ever read
  (\<open>None\<close> when the object has no such property), or a value that is not an object (a
  string, a number, \<^verbatim>\<open>undefined\<close>, \<^verbatim>\<open>null\<close>).
\<close>

datatype jsvalue = Object "string option" | Primitive

text \<open>
  What makes a workflow's own promise reject: a collaborator's rejection that nothing
  caught, or the \<^verbatim>\<open>TypeError\<close> that the operator \<^verbatim>\<open>in\<close> raises when its right operand is
  not an object.
\<close>

datatype exn = Raised jsvalue | TypeError

datatype event =
    Changed bool                     \<comment> \<open>\<^verbatim>\<open>onDidChangeEmitter.fire\<close>, with \<^verbatim>\<open>_syncing\<close> as a listener reads it\<close>
  | Pick string "string list"        \<comment> \<open>\<^verbatim>\<open>quickOpenService.open\<close>: placeholder and item labels\<close>
  | Confirm string string            \<comment> \<open>\<^verbatim>\<open>new ConfirmDialog({ title, msg }).open()\<close>\<close>
  | Remote repository                \<comment> \<open>\<^verbatim>\<open>git.remote(repository)\<close>\<close>
  | Status repository                \<comment> \<open>\<^verbatim>\<open>git.status(repository)\<close>\<close>
  | Exec repository "string list"    \<comment> \<open>\<^verbatim>\<open>git.exec(repository, args)\<close>\<close>
  | Warn string                      \<comment> \<open>\<^verbatim>\<open>messageService.warn\<close>\<close>
  | Error string                     \<comment> \<open>\<^verbatim>\<open>messageService.error\<close>\<close>
  | ConsoleError jsvalue             \<comment> \<open>\<^verbatim>\<open>console.error\<close>\<close>

record state =
  syncing :: bool
  events :: "event list"

text \<open>
  The collaborators' answers during one workflow. Each workflow opens at most one
  quick-open list and one confirmation dialog, so one answer of each kind is enough.
  \<open>pickReply\<close> is the index of the item the user runs in mode \<^verbatim>\<open>OPEN\<close>, or \<open>None\<close>
  when the list is closed without one. A promise of \<^verbatim>\<open>git\<close> settles either way:
  \<open>Inl\<close> is a rejection.
\<close>

record env =
  selectedRepository :: "repository option"
  selectedRepositoryStatus :: "status option"
  pickReply :: "nat option"
  confirmReply :: bool
  remoteResult :: "jsvalue + string list"
  statusResult :: "jsvalue + status"
  execResult :: "repository \<Rightarrow> string list \<Rightarrow> jsvalue + unit"

section \<open>JavaScript values\<close>

text \<open>
  Truthiness of an optional string: \<^verbatim>\<open>undefined\<close> and the empty string are falsy.
\<close>

definition truthy :: "string option \<Rightarrow> bool" where
  "truthy v = (case v of None \<Rightarrow> False | Some str \<Rightarrow> str \<noteq> [])"

text \<open>An optional string inside a template literal.\<close>

definition template :: "string option \<Rightarrow> string" where
  "template v = (case v of None \<Rightarrow> ''undefined'' | Some str \<Rightarrow> str)"

definition emit :: "event \<Rightarrow> state \<Rightarrow> state" where
  "emit e s = s\<lparr>events := events s @ [e]\<rparr>"

section \<open>The service\<close>

definition setSyncing :: "bool \<Rightarrow> state \<Rightarrow> state" where
  \<comment> \<open>The assignment, then the event; a listener of the event reads the field.\<close>
  "setSyncing b s =
     (let s1 = s\<lparr>syncing := b\<rparr>
      in emit (Changed (syncing s1)) s1)"

definition canSync :: "env \<Rightarrow> state \<Rightarrow> bool" where
  "canSync environment s =
     (if syncing s then False
      else case selectedRepositoryStatus environment of
             None \<Rightarrow> False
           | Some st \<Rightarrow> truthy (branch st) \<and> truthy (upstreamBranch st))"

definition canPublish :: "env \<Rightarrow> state \<Rightarrow> bool" where
  "canPublish environment s =
     (if syncing s then False
      else case selectedRepositoryStatus environment of
             None \<Rightarrow> False
           | Some st \<Rightarrow> truthy (branch st) \<and> \<not> truthy (upstreamBranch st))"

definition pick :: "string \<Rightarrow> (string \<times> 'a) list \<Rightarrow> env \<Rightarrow> state \<Rightarrow> 'a option \<times> state" where
  \<comment> \<open>One quick-open item per element, a pair of label and value (a plain string is its
      own label). The promise resolves with the value of the item run in mode
      \<^verbatim>\<open>OPEN\<close>, or with \<^verbatim>\<open>undefined\<close> from \<^verbatim>\<open>onClose\<close>; an index beyond the
      items names no item, so only \<^verbatim>\<open>onClose\<close> is left.\<close>
  "pick placeholder elements environment s =
     (let items = map fst elements;
          s1 = emit (Pick placeholder items) s
      in (case pickReply environment of
            None \<Rightarrow> None
          | Some i \<Rightarrow> if i < length elements then Some (snd (elements ! i)) else None,
          s1))"

definition confirm :: "string \<Rightarrow> string \<Rightarrow> env \<Rightarrow> state \<Rightarrow> bool \<times> state" where
  "confirm title msg environment s = (confirmReply environment, emit (Confirm title msg) s)"

definition error :: "jsvalue \<Rightarrow> state \<Rightarrow> (exn + unit) \<times> state" where
  \<comment> \<open>\<^verbatim>\<open>'message' in e && e['message']\<close>: the operator raises on a value that is not an
      object; an empty message is falsy.\<close>
  "error e s =
     (case e of
        Primitive \<Rightarrow> (Inl TypeError, s)
      | Object None \<Rightarrow> (Inr (), emit (ConsoleError e) s)
      | Object (Some message) \<Rightarrow>
          if message \<noteq> [] then (Inr (), emit (Error message) s)
          else (Inr (), emit (ConsoleError e) s))"

definition pullArgs :: "bool \<Rightarrow> string list" where
  \<comment> \<open>The array \<^verbatim>\<open>args\<close> that \<^verbatim>\<open>pull\<close> builds before it calls \<^verbatim>\<open>git.exec\<close>.\<close>
  "pullArgs rebase =
     (let args = [''pull''];
          args = (if rebase then args @ [''-r''] else args)
      in args)"

definition pull :: "env \<Rightarrow> repository \<Rightarrow> bool \<Rightarrow> state \<Rightarrow> (exn + unit) \<times> state" where
  "pull environment repo rebase s =
     (let args = pullArgs rebase;
          s1 = emit (Exec repo args) s
      in case execResult environment repo args of
           Inr _ \<Rightarrow> (Inr (), s1)
         | Inl e \<Rightarrow> error e s1)"

definition pushArgs :: "string option \<Rightarrow> string option \<Rightarrow> bool option \<Rightarrow> string list" where
  \<comment> \<open>The array \<^verbatim>\<open>args\<close> that \<^verbatim>\<open>push\<close> builds from its destructured options
      \<^verbatim>\<open>remote\<close>, \<^verbatim>\<open>branch\<close> and \<^verbatim>\<open>setUpstream\<close>, each of which may be missing.\<close>
  "pushArgs remote br setUpstream =
     (let args = [''push''];
          args = (if setUpstream = Some True then args @ [''-u''] else args);
          args = (if truthy remote then args @ [template remote] else args);
          args = (if truthy br then args @ [template br] else args)
      in args)"

definition push ::
  "env \<Rightarrow> repository \<Rightarrow> string option \<Rightarrow> string option \<Rightarrow> bool option \<Rightarrow> state
     \<Rightarrow> (exn + unit) \<times> state" where
  "push environment repo remote br setUpstream s =
     (let args = pushArgs remote br setUpstream;
          s1 = emit (Exec repo args) s
      in case execResult environment repo args of
           Inr _ \<Rightarrow> (Inr (), s1)
         | Inl e \<Rightarrow> error e s1)"

text \<open>
  \<^verbatim>\<open>shouldPush\<close> is an \<^verbatim>\<open>async\<close> method: the call sends the status request and hands
  back a promise at once. The promise settles later, with the value of
  \<^verbatim>\<open>status.aheadBehind && status.aheadBehind.ahead > 0 || true\<close> or with the rejection of
  \<^verbatim>\<open>git.status\<close>. \<^verbatim>\<open>sync\<close> does not await it: its \<^verbatim>\<open>if\<close> tests the promise object
  itself, and every object is truthy.
\<close>

datatype 'a promise = Promise "exn + 'a"

fun truthyObject :: "'a promise \<Rightarrow> bool" where
  "truthyObject (Promise outcome) = True"

definition shouldPush :: "env \<Rightarrow> repository \<Rightarrow> state \<Rightarrow> bool promise \<times> state" where
  "shouldPush environment repo s =
     (Promise
        (case statusResult environment of
           Inl e \<Rightarrow> Inl (Raised e)
         | Inr st \<Rightarrow>
             Inr ((case aheadBehind st of None \<Rightarrow> False | Some ab \<Rightarrow> 0 < ahead ab) \<or> True)),
      emit (Status repo) s)"

definition shouldRebase :: "env \<Rightarrow> state \<Rightarrow> bool option \<times> state" where
  "shouldRebase environment s =
     pick ''Pick a sync method:''
       [(''Pull and push commits'', False), (''Fetch, rebase and push commits'', True)]
       environment s"

definition syncMessage :: "bool \<Rightarrow> string option \<Rightarrow> string" where
  \<comment> \<open>The two template literals of the confirmation dialog of \<^verbatim>\<open>sync\<close>;
      \<open>CHR 0x27\<close> is the apostrophe.\<close>
  "syncMessage rebase upstream =
     (if rebase
      then ''This action will fetch, rebase and push commits from and to '' @ [CHR 0x27] @
           template upstream @ [CHR 0x27] @ ''.''
      else ''This action will pull and push commits from and to '' @ [CHR 0x27] @
           template upstream @ [CHR 0x27] @ ''.'')"

definition sync :: "env \<Rightarrow> state \<Rightarrow> (exn + unit) \<times> state" where
  "sync environment s =
     (let repository = selectedRepository environment;
          status = selectedRepositoryStatus environment
      in if \<not> canSync environment s \<or> repository = None then (Inr (), s)
         else case repository of
           None \<Rightarrow> (Inr (), s)
         | Some repo \<Rightarrow>
            (case shouldRebase environment s of
               (None, s1) \<Rightarrow> (Inr (), s1)
             | (Some rebase, s1) \<Rightarrow>
                 (let upstream = (case status of None \<Rightarrow> None | Some st \<Rightarrow> upstreamBranch st)
                  in case confirm ''Sync changes'' (syncMessage rebase upstream) environment s1 of
                       (False, s2) \<Rightarrow> (Inr (), s2)
                     | (True, s2) \<Rightarrow>
                         (let s3 = setSyncing True s2;
                              (outcome, s4) =
                                (case pull environment repo rebase s3 of
                                   (Inl e, s') \<Rightarrow> (Inl e, s')
                                 | (Inr u, s') \<Rightarrow>
                                     (case shouldPush environment repo s' of
                                        (p, s'') \<Rightarrow>
                                          if truthyObject p
                                          then push environment repo None None None s''
                                          else (Inr (), s'')))
                          in (outcome, setSyncing False s4)))))"


definition getRemote ::
  "env \<Rightarrow> repository \<Rightarrow> string \<Rightarrow> state \<Rightarrow> (exn + string option) \<times> state" where
  "getRemote environment repo br s =
     (let s1 = emit (Remote repo) s
      in case remoteResult environment of
           Inl e \<Rightarrow> (Inl (Raised e), s1)
         | Inr remotes \<Rightarrow>
             if length remotes = 0
             then (Inr None,
                   emit (Warn ''Your repository has no remotes configured to publish to.'') s1)
             else if length remotes = 1 then (Inr (Some (remotes ! 0)), s1)
             else (case pick (''Pick a remote to publish the branch '' @ br @ '' to:'')
                          (map (\<lambda>r. (r, r)) remotes) environment s1 of
                     (choice, s2) \<Rightarrow> (Inr choice, s2)))"

definition publishMessage :: "string \<Rightarrow> string \<Rightarrow> string" where
  \<comment> \<open>The template literal of the confirmation dialog of \<^verbatim>\<open>publish\<close>.\<close>
  "publishMessage remote br =
     ''This action will push commits to '' @ [CHR 0x27] @ remote @ ''/'' @ br @ [CHR 0x27] @
     '' and track it as an upstream branch.''"

definition publish :: "env \<Rightarrow> state \<Rightarrow> (exn + unit) \<times> state" where
  "publish environment s =
     (let repository = selectedRepository environment;
          status = selectedRepositoryStatus environment;
          br = (case status of None \<Rightarrow> None | Some st \<Rightarrow> branch st)
      in if \<not> canPublish environment s \<or> repository = None \<or> \<not> truthy br then (Inr (), s)
         else case (repository, br) of
           (Some repo, Some b) \<Rightarrow>
             (case getRemote environment repo b s of
                (Inl e, s1) \<Rightarrow> (Inl e, s1)
              | (Inr None, s1) \<Rightarrow> (Inr (), s1)
              | (Inr (Some remote), s1) \<Rightarrow>
                  if remote = [] then (Inr (), s1)
                  else (case confirm ''Publish changes'' (publishMessage remote b) environment s1 of
                          (False, s2) \<Rightarrow> (Inr (), s2)
                        | (True, s2) \<Rightarrow> push environment repo (Some remote) (Some b) (Some True) s2))
         | _ \<Rightarrow> (Inr (), s))"

section \<open>What an observer sees\<close>

text \<open>
  The properties below count the calls of one kind in the event list; these predicates
  select them.
\<close>

fun isChanged :: "event \<Rightarrow> bool" where
  "isChanged (Changed b) = True"
| "isChanged e = False"

fun isPrompt :: "event \<Rightarrow> bool" where
  "isPrompt (Pick placeholder items) = True"
| "isPrompt (Confirm title msg) = True"
| "isPrompt e = False"

fun isPick :: "event \<Rightarrow> bool" where
  "isPick (Pick placeholder items) = True"
| "isPick e = False"

fun isExec :: "event \<Rightarrow> bool" where
  "isExec (Exec repo args) = True"
| "isExec e = False"

fun isGit :: "event \<Rightarrow> bool" where
  "isGit (Exec repo args) = True"
| "isGit (Remote repo) = True"
| "isGit (Status repo) = True"
| "isGit e = False"

fun isNotification :: "event \<Rightarrow> bool" where
  "isNotification (Warn msg) = True"
| "isNotification (Error msg) = True"
| "isNotification e = False"

section \<open>Reports and example inputs\<close>

text \<open>
  What a settled \<^verbatim>\<open>git.exec\<close> leaves behind once \<^verbatim>\<open>pull\<close> or \<^verbatim>\<open>push\<close> has handled it,
  when the rejection is an object: nothing after a success, \<^verbatim>\<open>messageService.error\<close>
  with the message when there is a non-empty one, \<^verbatim>\<open>console.error\<close> with the rejected
  object otherwise.
\<close>

definition reported :: "jsvalue + unit \<Rightarrow> event list" where
  "reported outcome =
     (case outcome of
        Inr u \<Rightarrow> []
      | Inl (Object (Some message)) \<Rightarrow> if message \<noteq> [] then [Error message] else [ConsoleError (Object (Some message))]
      | Inl e \<Rightarrow> [ConsoleError e])"

text \<open>The events \<^verbatim>\<open>sync\<close> records up to the start of the \<^verbatim>\<open>try\<close> block.\<close>

definition prologue :: "bool \<Rightarrow> status \<Rightarrow> event list" where
  "prologue rebase st =
     [Pick ''Pick a sync method:'' [''Pull and push commits'', ''Fetch, rebase and push commits''],
      Confirm ''Sync changes'' (syncMessage rebase (upstreamBranch st)),
      Changed True]"

text \<open>
  Concrete inputs: a repository, a status that tracks an upstream branch and one that
  does not, the initial state of the service, three behaviours of \<^verbatim>\<open>git.exec\<close>, and
  the environments built from them.
\<close>

definition exampleRepository :: repository where
  "exampleRepository = Repository ''file:///home/project''"

definition trackedStatus :: status where
  "trackedStatus =
     \<lparr>branch = Some ''master'', upstreamBranch = Some ''origin/master'',
      aheadBehind = Some \<lparr>ahead = 0, behind = 0\<rparr>\<rparr>"

definition untrackedStatus :: status where
  "untrackedStatus = \<lparr>branch = Some ''feature-x'', upstreamBranch = None, aheadBehind = None\<rparr>"

definition idle :: state where
  "idle = \<lparr>syncing = False, events = []\<rparr>"

definition succeed :: "repository \<Rightarrow> string list \<Rightarrow> jsvalue + unit" where
  "succeed repo args = Inr ()"

definition rejectPull :: "jsvalue \<Rightarrow> repository \<Rightarrow> string list \<Rightarrow> jsvalue + unit" where
  "rejectPull e repo args = (if take 1 args = [''pull''] then Inl e else Inr ())"

definition rejectAll :: "jsvalue \<Rightarrow> repository \<Rightarrow> string list \<Rightarrow> jsvalue + unit" where
  "rejectAll e repo args = Inl e"

definition syncEnv :: "nat option \<Rightarrow> bool \<Rightarrow> (repository \<Rightarrow> string list \<Rightarrow> jsvalue + unit) \<Rightarrow> env" where
  "syncEnv reply ok results =
     \<lparr>selectedRepository = Some exampleRepository,
      selectedRepositoryStatus = Some trackedStatus,
      pickReply = reply, confirmReply = ok,
      remoteResult = Inr [''origin''], statusResult = Inr trackedStatus,
      execResult = results\<rparr>"

definition publishEnv :: "string list \<Rightarrow> nat option \<Rightarrow> bool \<Rightarrow> (repository \<Rightarrow> string list \<Rightarrow> jsvalue + unit) \<Rightarrow> env" where
  "publishEnv remotes reply ok results =
     \<lparr>selectedRepository = Some exampleRepository,
      selectedRepositoryStatus = Some untrackedStatus,
      pickReply = reply, confirmReply = ok,
      remoteResult = Inr remotes, statusResult = Inr untrackedStatus,
      execResult = results\<rparr>"

lemmas example_defs = succeed_def
  syncEnv_def publishEnv_def idle_def trackedStatus_def untrackedStatus_def
  rejectPull_def rejectAll_def exampleRepository_def

lemmas service_defs =
  sync_def publish_def canSync_def canPublish_def shouldRebase_def shouldPush_def getRemote_def
  pick_def confirm_def pull_def push_def error_def pullArgs_def pushArgs_def setSyncing_def
  emit_def truthy_def template_def syncMessage_def publishMessage_def Let_def

section \<open>The steps of the workflows\<close>

lemma pull_contained:
  "execResult environment repo (pullArgs rebase) \<noteq> Inl Primitive \<Longrightarrow>
   pull environment repo rebase s =
     (Inr (), s\<lparr>events := events s @ Exec repo (pullArgs rebase)
                    # reported (execResult environment repo (pullArgs rebase))\<rparr>)"
  by (auto simp: pull_def error_def emit_def reported_def Let_def
           split: sum.splits jsvalue.splits option.splits)


lemma push_contained:
  "execResult environment repo (pushArgs remote br up) \<noteq> Inl Primitive \<Longrightarrow>
   push environment repo remote br up s =
     (Inr (), s\<lparr>events := events s @ Exec repo (pushArgs remote br up)
                    # reported (execResult environment repo (pushArgs remote br up))\<rparr>)"
  by (auto simp: push_def error_def emit_def reported_def Let_def
           split: sum.splits jsvalue.splits option.splits)

lemma push_escapes:
  "execResult environment repo (pushArgs remote br up) = Inl Primitive \<Longrightarrow>
   push environment repo remote br up s = (Inl TypeError, emit (Exec repo (pushArgs remote br up)) s)"
  by (simp add: push_def error_def Let_def)

lemma sync_confirmed:
  assumes "canSync environment s" and "selectedRepository environment = Some repo"
    and "selectedRepositoryStatus environment = Some st"
    and "pickReply environment = Some (if rebase then 1 else 0)" and "confirmReply environment"
  shows "sync environment s =
     (case pull environment repo rebase
             (setSyncing True
               (emit (Confirm ''Sync changes'' (syncMessage rebase (upstreamBranch st)))
                 (emit (Pick ''Pick a sync method:''
                          [''Pull and push commits'', ''Fetch, rebase and push commits'']) s))) of
        (Inl e, s') \<Rightarrow> (Inl e, setSyncing False s')
      | (Inr u, s') \<Rightarrow>
          (case push environment repo None None None (emit (Status repo) s') of
             (outcome, s'') \<Rightarrow> (outcome, setSyncing False s'')))"
  using assms
  by (auto simp: sync_def shouldRebase_def pick_def confirm_def shouldPush_def Let_def
           split: prod.splits sum.splits)


lemma sync_push_escapes:
  assumes "canSync environment s" and "selectedRepository environment = Some repo"
    and "selectedRepositoryStatus environment = Some st"
    and "pickReply environment = Some (if rebase then 1 else 0)" and "confirmReply environment"
    and "execResult environment repo (pullArgs rebase) \<noteq> Inl Primitive"
    and "execResult environment repo [''push''] = Inl Primitive"
  shows "sync environment s =
     (Inl TypeError,
      s\<lparr>syncing := False,
        events := events s @ prologue rebase st @ [Exec repo (pullArgs rebase)] @
                  reported (execResult environment repo (pullArgs rebase)) @
                  [Status repo, Exec repo [''push''], Changed False]\<rparr>)"
proof -
  have "execResult environment repo (pushArgs None None None) = Inl Primitive"
    using assms(7) by (simp add: pushArgs_def truthy_def)
  from push_escapes [OF this] show ?thesis
    by (simp add: sync_confirmed [OF assms(1-5)] pull_contained [OF assms(6)] setSyncing_def
          emit_def prologue_def pushArgs_def truthy_def Let_def)
qed

lemma sync_contained:
  assumes "canSync environment s" and "selectedRepository environment = Some repo"
    and "selectedRepositoryStatus environment = Some st"
    and "pickReply environment = Some (if rebase then 1 else 0)" and "confirmReply environment"
    and "execResult environment repo (pullArgs rebase) \<noteq> Inl Primitive"
    and "execResult environment repo [''push''] \<noteq> Inl Primitive"
  shows "sync environment s =
     (Inr (),
      s\<lparr>syncing := False,
        events := events s @ prologue rebase st @ [Exec repo (pullArgs rebase)] @
                  reported (execResult environment repo (pullArgs rebase)) @
                  [Status repo, Exec repo [''push'']] @
                  reported (execResult environment repo [''push'']) @ [Changed False]\<rparr>)"
proof -
  have "execResult environment repo (pushArgs None None None) \<noteq> Inl Primitive"
    using assms(7) by (simp add: pushArgs_def truthy_def)
  from push_contained [OF this] show ?thesis
    by (simp add: sync_confirmed [OF assms(1-5)] pull_contained [OF assms(6)] setSyncing_def
          emit_def prologue_def pushArgs_def truthy_def Let_def)
qed







lemma reported_quiet:
  "filter isChanged (reported outcome) = []" "filter isGit (reported outcome) = []"
  "filter isExec (reported outcome) = []" "filter isPrompt (reported outcome) = []"
  "filter isPick (reported outcome) = []"
  by (auto simp: reported_def split: sum.splits jsvalue.splits option.splits)

lemma prologue_quiet:
  "filter isChanged (prologue rebase st) = [Changed True]" "filter isGit (prologue rebase st) = []"
  "filter isExec (prologue rebase st) = []"
  by (simp_all add: prologue_def)

lemma canSync_status:
  "canSync environment s \<Longrightarrow> \<exists>st. selectedRepositoryStatus environment = Some st"
  by (auto simp: canSync_def split: if_splits option.splits)

lemma pullArgs_simps: "pullArgs True = [''pull'', ''-r'']" "pullArgs False = [''pull'']"
  by (simp_all add: pullArgs_def)

lemma publish_eligible:
  assumes "canPublish environment s" and "selectedRepository environment = Some repo"
    and "selectedRepositoryStatus environment = Some st" and "branch st = Some b"
  shows "publish environment s =
     (case getRemote environment repo b s of
        (Inl e, s1) \<Rightarrow> (Inl e, s1)
      | (Inr None, s1) \<Rightarrow> (Inr (), s1)
      | (Inr (Some remote), s1) \<Rightarrow>
          if remote = [] then (Inr (), s1)
          else if confirmReply environment
               then push environment repo (Some remote) (Some b) (Some True)
                      (emit (Confirm ''Publish changes'' (publishMessage remote b)) s1)
               else (Inr (), emit (Confirm ''Publish changes'' (publishMessage remote b)) s1))"
  using assms
  by (auto simp: publish_def canPublish_def confirm_def Let_def
           split: prod.splits sum.splits option.splits if_splits)

lemma getRemote_many:
  assumes "remoteResult environment = Inr remotes" and "2 \<le> length remotes"
  shows "getRemote environment repo b s =
     (Inr (case pickReply environment of
             None \<Rightarrow> None
           | Some i \<Rightarrow> if i < length remotes then Some (remotes ! i) else None),
      s\<lparr>events := events s @
         [Remote repo, Pick (''Pick a remote to publish the branch '' @ b @ '' to:'') remotes]\<rparr>)"
  using assms
  by (auto simp: getRemote_def pick_def emit_def Let_def comp_def split: option.splits)

section \<open>Eligibility\<close>

text \<open>
  C1. \<^verbatim>\<open>canSync()\<close> holds exactly when the service is not syncing and the selected
  status exists with a non-empty branch and a non-empty upstream branch;
  \<^verbatim>\<open>canPublish()\<close> holds exactly when the service is not syncing and the selected status
  exists with a non-empty branch and no upstream branch (absent, or the empty string,
  which JavaScript also takes for false); the two never hold together.
\<close>

theorem canSync_canPublish_iff:
  "canSync environment s =
     (\<not> syncing s \<and>
      (case selectedRepositoryStatus environment of
         None \<Rightarrow> False
       | Some st \<Rightarrow> (case branch st of None \<Rightarrow> False | Some b \<Rightarrow> b \<noteq> []) \<and>
                    (case upstreamBranch st of None \<Rightarrow> False | Some u \<Rightarrow> u \<noteq> [])))
   \<and> canPublish environment s =
     (\<not> syncing s \<and>
      (case selectedRepositoryStatus environment of
         None \<Rightarrow> False
       | Some st \<Rightarrow> (case branch st of None \<Rightarrow> False | Some b \<Rightarrow> b \<noteq> []) \<and>
                    (case upstreamBranch st of None \<Rightarrow> True | Some u \<Rightarrow> u = [])))
   \<and> \<not> (canSync environment s \<and> canPublish environment s)"
  by (auto simp: canSync_def canPublish_def truthy_def split: option.splits)

text \<open>
  A tracked branch can be synced and not published, an untracked one published and not
  synced, and nothing can be synced while the service is syncing.
\<close>

theorem canSync_canPublish_iff_witness:
  "canSync (syncEnv None True (rejectAll Primitive)) idle \<and>
   \<not> canPublish (syncEnv None True (rejectAll Primitive)) idle \<and>
   canPublish (publishEnv [] None True (rejectAll Primitive)) idle \<and>
   \<not> canSync (publishEnv [] None True (rejectAll Primitive)) idle \<and>
   \<not> canSync (syncEnv None True (rejectAll Primitive)) (idle\<lparr>syncing := True\<rparr>)"
  using canSync_canPublish_iff [of "syncEnv None True (rejectAll Primitive)" idle]
    canSync_canPublish_iff [of "publishEnv [] None True (rejectAll Primitive)" idle]
    canSync_canPublish_iff [of "syncEnv None True (rejectAll Primitive)" "idle\<lparr>syncing := True\<rparr>"]
  by (simp add: example_defs)

section \<open>The sync workflow\<close>



text \<open>
  C3. When the user picks the item ``Fetch, rebase and push commits'', confirms, and the
  pull succeeds, exactly one pull command is sent, with the arguments \<^verbatim>\<open>["pull","-r"]\<close>,
  then the status is asked for, and then a push command \<^verbatim>\<open>["push"]\<close> is sent. Nothing
  is assumed about the answer to the status request: the push is sent when the ahead
  count is zero, when the ahead and behind counts are absent, and even when the request
  is rejected, since \<^verbatim>\<open>sync\<close> tests the promise of \<^verbatim>\<open>shouldPush\<close> and not its value.
\<close>

theorem sync_rebase_pull_then_push:
  assumes "canSync environment s" and "selectedRepository environment = Some repo"
    and "pickReply environment = Some 1" and "confirmReply environment"
    and "execResult environment repo [''pull'', ''-r''] = Inr ()"
  shows "filter isGit (events (snd (sync environment s))) =
           filter isGit (events s) @
           [Exec repo [''pull'', ''-r''], Status repo, Exec repo [''push'']] \<and>
         filter isExec (events (snd (sync environment s))) =
           filter isExec (events s) @ [Exec repo [''pull'', ''-r''], Exec repo [''push'']]"
proof -
  from assms(1) obtain st where st: "selectedRepositoryStatus environment = Some st"
    using canSync_status by blast
  have pick: "pickReply environment = Some (if True then 1 else 0)"
    using assms(3) by simp
  have pulled: "execResult environment repo (pullArgs True) = Inr ()"
    using assms(5) by (simp add: pullArgs_simps)
  then have ok: "execResult environment repo (pullArgs True) \<noteq> Inl Primitive"
    by simp
  show ?thesis
  proof (cases "execResult environment repo [''push''] = Inl Primitive")
    case True
    show ?thesis
      by (simp add: sync_push_escapes [OF assms(1,2) st pick assms(4) ok True]
            prologue_quiet reported_quiet pullArgs_simps)
  next
    case False
    show ?thesis
      by (simp add: sync_contained [OF assms(1,2) st pick assms(4) ok False]
            prologue_quiet reported_quiet pullArgs_simps)
  qed
qed

text \<open>The answer to the status request has an ahead count of zero.\<close>

theorem sync_rebase_pull_then_push_witness:
  "canSync (syncEnv (Some 1) True succeed) idle \<and>
   selectedRepository (syncEnv (Some 1) True succeed) = Some exampleRepository \<and>
   pickReply (syncEnv (Some 1) True succeed) = Some 1 \<and>
   confirmReply (syncEnv (Some 1) True succeed) \<and>
   execResult (syncEnv (Some 1) True succeed) exampleRepository [''pull'', ''-r''] = Inr () \<and>
   statusResult (syncEnv (Some 1) True succeed) = Inr trackedStatus \<and>
   map_option ahead (aheadBehind trackedStatus) = Some 0 \<and>
   filter isGit (events (snd (sync (syncEnv (Some 1) True succeed) idle))) =
     [Exec exampleRepository [''pull'', ''-r''], Status exampleRepository,
      Exec exampleRepository [''push'']] \<and>
   filter isExec (events (snd (sync (syncEnv (Some 1) True succeed) idle))) =
     [Exec exampleRepository [''pull'', ''-r''], Exec exampleRepository [''push'']]"
proof -
  let ?E = "syncEnv (Some 1) True succeed"
  have h1: "canSync ?E idle" by (simp add: example_defs canSync_def truthy_def)
  have h2: "selectedRepository ?E = Some exampleRepository" by (simp add: syncEnv_def)
  have h3: "pickReply ?E = Some 1" by (simp add: syncEnv_def)
  have h4: "confirmReply ?E" by (simp add: syncEnv_def)
  have h5: "execResult ?E exampleRepository [''pull'', ''-r''] = Inr ()"
    by (simp add: syncEnv_def succeed_def)
  have h6: "statusResult ?E = Inr trackedStatus \<and> map_option ahead (aheadBehind trackedStatus) = Some 0"
    by (simp add: syncEnv_def trackedStatus_def)
  from sync_rebase_pull_then_push [OF h1 h2 h3 h4 h5] h1 h2 h3 h4 h5 h6
  show ?thesis by (simp add: idle_def)
qed

text \<open>
  C4, amended. When \<^verbatim>\<open>git.exec\<close> rejects the pull or the push of a confirmed \<^verbatim>\<open>sync\<close>
  with an object, the rejection is shown with \<^verbatim>\<open>messageService.error\<close> and its message
  when the object has a non-empty message; otherwise no notification is shown and the
  rejected object is written with \<^verbatim>\<open>console.error\<close>. A rejected pull does not end the
  workflow: the status is asked for and the push is sent after it, and \<^verbatim>\<open>sync\<close>
  resolves.
\<close>

theorem command_error_reported:
  assumes "canSync environment s" and "selectedRepository environment = Some repo"
    and "selectedRepositoryStatus environment = Some st"
    and "pickReply environment = Some (if rebase then 1 else 0)" and "confirmReply environment"
    and "execResult environment repo (pullArgs rebase) = pulled" and "pulled \<noteq> Inl Primitive"
    and "execResult environment repo [''push''] = pushed" and "pushed \<noteq> Inl Primitive"
  shows "sync environment s =
     (Inr (),
      s\<lparr>syncing := False,
        events := events s @
          [Pick ''Pick a sync method:'' [''Pull and push commits'', ''Fetch, rebase and push commits''],
           Confirm ''Sync changes'' (syncMessage rebase (upstreamBranch st)),
           Changed True, Exec repo (pullArgs rebase)] @ reported pulled @
          [Status repo, Exec repo [''push'']] @ reported pushed @ [Changed False]\<rparr>)"
proof -
  have p1: "execResult environment repo (pullArgs rebase) \<noteq> Inl Primitive"
    using assms(6,7) by simp
  have p2: "execResult environment repo [''push''] \<noteq> Inl Primitive"
    using assms(8,9) by simp
  show ?thesis
    using assms(6,8) by (simp add: sync_contained [OF assms(1-5) p1 p2] prologue_def)
qed

text \<open>
  Both commands rejected with a message, which is shown twice; and a pull rejected with
  an object that has no message, which is only logged.
\<close>

theorem command_error_reported_witness:
  "canSync (syncEnv (Some 0) True (rejectAll (Object (Some ''fatal: unable to access'')))) idle \<and>
   sync (syncEnv (Some 0) True (rejectAll (Object (Some ''fatal: unable to access'')))) idle =
     (Inr (),
      idle\<lparr>events :=
        [Pick ''Pick a sync method:'' [''Pull and push commits'', ''Fetch, rebase and push commits''],
         Confirm ''Sync changes''
           (''This action will pull and push commits from and to '' @ [CHR 0x27] @
            ''origin/master'' @ [CHR 0x27] @ ''.''),
         Changed True,
         Exec exampleRepository [''pull''], Error ''fatal: unable to access'',
         Status exampleRepository,
         Exec exampleRepository [''push''], Error ''fatal: unable to access'',
         Changed False]\<rparr>) \<and>
   canSync (syncEnv (Some 1) True (rejectPull (Object None))) idle \<and>
   sync (syncEnv (Some 1) True (rejectPull (Object None))) idle =
     (Inr (),
      idle\<lparr>events :=
        [Pick ''Pick a sync method:'' [''Pull and push commits'', ''Fetch, rebase and push commits''],
         Confirm ''Sync changes''
           (''This action will fetch, rebase and push commits from and to '' @ [CHR 0x27] @
            ''origin/master'' @ [CHR 0x27] @ ''.''),
         Changed True,
         Exec exampleRepository [''pull'', ''-r''], ConsoleError (Object None),
         Status exampleRepository,
         Exec exampleRepository [''push''],
         Changed False]\<rparr>)"
proof -
  let ?A = "syncEnv (Some 0) True (rejectAll (Object (Some ''fatal: unable to access'')))"
  let ?B = "syncEnv (Some 1) True (rejectPull (Object None))"
  have h1: "canSync (syncEnv reply True results) idle" for reply results
    by (simp add: example_defs canSync_def truthy_def)
  have h2: "selectedRepository (syncEnv reply True results) = Some exampleRepository" for reply results
    by (simp add: syncEnv_def)
  have h3: "selectedRepositoryStatus (syncEnv reply True results) = Some trackedStatus" for reply results
    by (simp add: syncEnv_def)
  have a4: "pickReply ?A = Some (if False then 1 else 0)" by (simp add: syncEnv_def)
  have b4: "pickReply ?B = Some (if True then 1 else 0)" by (simp add: syncEnv_def)
  have h5: "confirmReply (syncEnv reply True results)" for reply results
    by (simp add: syncEnv_def)
  have a6: "execResult ?A exampleRepository (pullArgs False) = Inl (Object (Some ''fatal: unable to access''))"
    and a7: "execResult ?A exampleRepository [''push''] = Inl (Object (Some ''fatal: unable to access''))"
    by (simp_all add: syncEnv_def rejectAll_def)
  have b6: "execResult ?B exampleRepository (pullArgs True) = Inl (Object None)"
    and b7: "execResult ?B exampleRepository [''push''] = Inr ()"
    by (simp_all add: syncEnv_def rejectPull_def pullArgs_def)
  have ne: "Inl (Object m) \<noteq> (Inl Primitive :: jsvalue + unit)" "Inr () \<noteq> (Inl Primitive :: jsvalue + unit)" for m
    by simp_all
  from command_error_reported [OF h1 h2 h3 a4 h5 a6 ne(1) a7 ne(1)]
    command_error_reported [OF h1 h2 h3 b4 h5 b6 ne(1) b7 ne(2)] h1
  show ?thesis
    by (simp add: idle_def reported_def pullArgs_def syncMessage_def template_def trackedStatus_def)
qed

text \<open>
  Against C4 as it was stated: a pull rejected with an object that has no message, or an
  empty one, leaves no warning and no error notification at all; the only trace of the
  failure is the call of \<^verbatim>\<open>console.error\<close>.
\<close>

theorem command_error_unreported:
  "events (snd (sync (syncEnv (Some 1) True (rejectPull (Object None))) idle)) =
     [Pick ''Pick a sync method:'' [''Pull and push commits'', ''Fetch, rebase and push commits''],
      Confirm ''Sync changes''
        (''This action will fetch, rebase and push commits from and to '' @ [CHR 0x27] @
         ''origin/master'' @ [CHR 0x27] @ ''.''),
      Changed True, Exec exampleRepository [''pull'', ''-r''], ConsoleError (Object None),
      Status exampleRepository, Exec exampleRepository [''push''], Changed False] \<and>
   filter isNotification
     (events (snd (sync (syncEnv (Some 1) True (rejectPull (Object None))) idle))) = [] \<and>
   filter isNotification
     (events (snd (sync (syncEnv (Some 1) True (rejectPull (Object (Some [])))) idle))) = []"
  by (simp add: example_defs service_defs)

text \<open>
  C5. When \<^verbatim>\<open>sync\<close> is called while the service is syncing, or while \<^verbatim>\<open>canSync()\<close> is
  false, or while no repository is selected, it resolves at once and leaves the state as
  it was: no event is recorded (no prompt, no command, no notification, no change event)
  and \<^verbatim>\<open>_syncing\<close> keeps its value.
\<close>

theorem sync_ineligible_noop:
  assumes "syncing s \<or> \<not> canSync environment s \<or> selectedRepository environment = None"
  shows "sync environment s = (Inr (), s)"
  using assms by (auto simp: sync_def canSync_def Let_def)

text \<open>One input for each of the three reasons.\<close>

theorem sync_ineligible_noop_witness:
  "syncing (idle\<lparr>syncing := True\<rparr>) \<and>
   sync (syncEnv (Some 1) True succeed) (idle\<lparr>syncing := True\<rparr>) = (Inr (), idle\<lparr>syncing := True\<rparr>) \<and>
   \<not> canSync (publishEnv [''origin''] (Some 1) True succeed) idle \<and>
   sync (publishEnv [''origin''] (Some 1) True succeed) idle = (Inr (), idle) \<and>
   selectedRepository (syncEnv (Some 1) True succeed\<lparr>selectedRepository := None\<rparr>) = None \<and>
   sync (syncEnv (Some 1) True succeed\<lparr>selectedRepository := None\<rparr>) idle = (Inr (), idle)"
proof -
  have h1: "syncing (idle\<lparr>syncing := True\<rparr>)" by simp
  have h2: "\<not> canSync (publishEnv [''origin''] (Some 1) True succeed) idle"
    by (simp add: example_defs canSync_def truthy_def)
  have h3: "selectedRepository (syncEnv (Some 1) True succeed\<lparr>selectedRepository := None\<rparr>) = None"
    by simp
  from h1 h2 h3
    sync_ineligible_noop [of "idle\<lparr>syncing := True\<rparr>" "syncEnv (Some 1) True succeed"]
    sync_ineligible_noop [of idle "publishEnv [''origin''] (Some 1) True succeed"]
    sync_ineligible_noop [of idle "syncEnv (Some 1) True succeed\<lparr>selectedRepository := None\<rparr>"]
  show ?thesis by blast
qed

text \<open>
  C6. When \<^verbatim>\<open>sync\<close> passes its guard and the user closes the method list, or declines
  the confirmation dialog, no call to \<^verbatim>\<open>git\<close> is made, \<^verbatim>\<open>setSyncing\<close> is never called
  (no change event fires) and \<^verbatim>\<open>_syncing\<close> is false when \<^verbatim>\<open>sync\<close> resolves.
\<close>

theorem sync_cancelled:
  assumes "canSync environment s" and "selectedRepository environment = Some repo"
    and "pickReply environment = None \<or> \<not> confirmReply environment"
  shows "fst (sync environment s) = Inr () \<and>
         \<not> syncing (snd (sync environment s)) \<and>
         filter isChanged (events (snd (sync environment s))) = filter isChanged (events s) \<and>
         filter isGit (events (snd (sync environment s))) = filter isGit (events s)"
  using assms
  by (auto simp: sync_def canSync_def shouldRebase_def pick_def confirm_def emit_def Let_def
           split: prod.splits option.splits if_splits)

text \<open>A closed method list, and a declined confirmation.\<close>

theorem sync_cancelled_witness:
  "canSync (syncEnv None True succeed) idle \<and>
   selectedRepository (syncEnv None True succeed) = Some exampleRepository \<and>
   pickReply (syncEnv None True succeed) = None \<and>
   \<not> syncing (snd (sync (syncEnv None True succeed) idle)) \<and>
   filter isChanged (events (snd (sync (syncEnv None True succeed) idle))) = [] \<and>
   filter isGit (events (snd (sync (syncEnv None True succeed) idle))) = [] \<and>
   canSync (syncEnv (Some 0) False succeed) idle \<and>
   selectedRepository (syncEnv (Some 0) False succeed) = Some exampleRepository \<and>
   \<not> confirmReply (syncEnv (Some 0) False succeed) \<and>
   \<not> syncing (snd (sync (syncEnv (Some 0) False succeed) idle)) \<and>
   filter isChanged (events (snd (sync (syncEnv (Some 0) False succeed) idle))) = [] \<and>
   filter isGit (events (snd (sync (syncEnv (Some 0) False succeed) idle))) = []"
proof -
  let ?A = "syncEnv None True succeed" and ?B = "syncEnv (Some 0) False succeed"
  have a1: "canSync ?A idle" by (simp add: example_defs canSync_def truthy_def)
  have a2: "selectedRepository ?A = Some exampleRepository" by (simp add: syncEnv_def)
  have a3: "pickReply ?A = None" by (simp add: syncEnv_def)
  have b1: "canSync ?B idle" by (simp add: example_defs canSync_def truthy_def)
  have b2: "selectedRepository ?B = Some exampleRepository" by (simp add: syncEnv_def)
  have b3: "\<not> confirmReply ?B" by (simp add: syncEnv_def)
  from a3 have a3': "pickReply ?A = None \<or> \<not> confirmReply ?A" by (rule disjI1)
  from b3 have b3': "pickReply ?B = None \<or> \<not> confirmReply ?B" by (rule disjI2)
  from sync_cancelled [OF a1 a2 a3'] sync_cancelled [OF b1 b2 b3'] a1 a2 a3 b1 b2 b3
  show ?thesis by (simp add: idle_def)
qed

section \<open>Command construction\<close>

text \<open>
  C7, amended. The arguments of \<^verbatim>\<open>pull\<close> are \<^verbatim>\<open>pull\<close>, then \<^verbatim>\<open>-r\<close> when rebasing. The
  arguments of \<^verbatim>\<open>push\<close> are \<^verbatim>\<open>push\<close>, then \<^verbatim>\<open>-u\<close> when \<^verbatim>\<open>setUpstream\<close> is true, then
  the remote when it is given and not empty, then the branch when it is given and not
  empty: each of the two positional arguments is appended on its own, whether or not
  the other is present. No argument is the empty string.
\<close>

theorem args_layout:
  "pullArgs rebase = ''pull'' # (if rebase then [''-r''] else []) \<and>
   pushArgs remote br setUpstream =
     ''push'' # (if setUpstream = Some True then [''-u''] else [])
       @ (case remote of None \<Rightarrow> [] | Some r \<Rightarrow> if r = [] then [] else [r])
       @ (case br of None \<Rightarrow> [] | Some b \<Rightarrow> if b = [] then [] else [b]) \<and>
   [] \<notin> set (pullArgs rebase) \<and> [] \<notin> set (pushArgs remote br setUpstream)"
  by (auto simp: pullArgs_def pushArgs_def truthy_def template_def Let_def split: option.splits)

text \<open>The argument lists of the calls that \<^verbatim>\<open>sync\<close> and \<^verbatim>\<open>publish\<close> make.\<close>

theorem args_layout_witness:
  "pullArgs True = [''pull'', ''-r''] \<and> pullArgs False = [''pull''] \<and>
   pushArgs None None None = [''push''] \<and>
   pushArgs (Some ''origin'') (Some ''feature-x'') (Some True) =
     [''push'', ''-u'', ''origin'', ''feature-x''] \<and>
   pushArgs (Some []) (Some []) (Some False) = [''push'']"
  using args_layout [of True None None None] args_layout [of False None None None]
    args_layout [of True "Some ''origin''" "Some ''feature-x''" "Some True"]
    args_layout [of True "Some []" "Some []" "Some False"]
  by simp

text \<open>
  Against C7 as it was stated: a remote without a branch, and a branch without a remote,
  are appended all the same, so the positional arguments do not wait for both to be
  present.
\<close>

theorem args_layout_refuted:
  "pushArgs (Some ''origin'') None None = [''push'', ''origin''] \<and>
   pushArgs None (Some ''feature-x'') (Some True) = [''push'', ''-u'', ''feature-x''] \<and>
   \<not> (\<forall>remote br setUpstream.
         truthy remote \<and> truthy br \<or>
         set (pushArgs remote br setUpstream) \<subseteq> {''push'', ''-u''})"
proof -
  have a: "pushArgs (Some ''origin'') None None = [''push'', ''origin'']"
    by (simp add: pushArgs_def truthy_def template_def)
  have b: "pushArgs None (Some ''feature-x'') (Some True) = [''push'', ''-u'', ''feature-x'']"
    by (simp add: pushArgs_def truthy_def template_def)
  have "\<not> (truthy (Some ''origin'') \<and> truthy None \<or>
            set (pushArgs (Some ''origin'') None None) \<subseteq> {''push'', ''-u''})"
    by (simp add: a truthy_def)
  then have "\<not> (\<forall>remote br setUpstream.
         truthy remote \<and> truthy br \<or>
         set (pushArgs remote br setUpstream) \<subseteq> {''push'', ''-u''})"
    by blast
  with a b show ?thesis by blast
qed

section \<open>The publish workflow\<close>

text \<open>
  C8. When \<^verbatim>\<open>publish\<close> passes its guard, the branch is \<^verbatim>\<open>feature-x\<close> and \<^verbatim>\<open>git.remote\<close>
  answers the single remote \<^verbatim>\<open>origin\<close>, then no quick-open list is shown, the only
  prompt is the confirmation dialog, whose message names \<^verbatim>\<open>origin/feature-x\<close> between
  apostrophes, and exactly one command is sent when the user confirms, with the
  arguments \<^verbatim>\<open>["push","-u","origin","feature-x"]\<close>, and none when the user declines.
\<close>

theorem publish_origin_feature_x:
  assumes "canPublish environment s" and "selectedRepository environment = Some repo"
    and "selectedRepositoryStatus environment = Some st" and "branch st = Some ''feature-x''"
    and "remoteResult environment = Inr [''origin'']"
  shows "filter isPick (events (snd (publish environment s))) = filter isPick (events s) \<and>
         filter isPrompt (events (snd (publish environment s))) =
           filter isPrompt (events s) @
           [Confirm ''Publish changes''
              (''This action will push commits to '' @ [CHR 0x27] @ ''origin/feature-x'' @ [CHR 0x27] @
               '' and track it as an upstream branch.'')] \<and>
         filter isExec (events (snd (publish environment s))) =
           filter isExec (events s) @
           (if confirmReply environment
            then [Exec repo [''push'', ''-u'', ''origin'', ''feature-x'']] else [])"
proof -
  have args: "pushArgs (Some ''origin'') (Some ''feature-x'') (Some True) =
              [''push'', ''-u'', ''origin'', ''feature-x'']"
    by (simp add: pushArgs_def truthy_def template_def)
  have remote: "getRemote environment repo ''feature-x'' s = (Inr (Some ''origin''), emit (Remote repo) s)"
    using assms(5) by (simp add: getRemote_def)
  show ?thesis
  proof (cases "execResult environment repo [''push'', ''-u'', ''origin'', ''feature-x''] = Inl Primitive")
    case True
    then have "execResult environment repo (pushArgs (Some ''origin'') (Some ''feature-x'') (Some True)) = Inl Primitive"
      by (simp add: args)
    from push_escapes [OF this] show ?thesis
      by (simp add: publish_eligible [OF assms(1-4)] remote emit_def publishMessage_def args)
  next
    case False
    then have "execResult environment repo (pushArgs (Some ''origin'') (Some ''feature-x'') (Some True)) \<noteq> Inl Primitive"
      by (simp add: args)
    from push_contained [OF this] show ?thesis
      by (simp add: publish_eligible [OF assms(1-4)] remote emit_def publishMessage_def args
            reported_quiet)
  qed
qed

text \<open>The user confirms in the first environment and declines in the second.\<close>

theorem publish_origin_feature_x_witness:
  "canPublish (publishEnv [''origin''] None True succeed) idle \<and>
   selectedRepository (publishEnv [''origin''] None True succeed) = Some exampleRepository \<and>
   selectedRepositoryStatus (publishEnv [''origin''] None True succeed) = Some untrackedStatus \<and>
   branch untrackedStatus = Some ''feature-x'' \<and>
   remoteResult (publishEnv [''origin''] None True succeed) = Inr [''origin''] \<and>
   filter isPick (events (snd (publish (publishEnv [''origin''] None True succeed) idle))) = [] \<and>
   filter isExec (events (snd (publish (publishEnv [''origin''] None True succeed) idle))) =
     [Exec exampleRepository [''push'', ''-u'', ''origin'', ''feature-x'']] \<and>
   filter isExec (events (snd (publish (publishEnv [''origin''] None False succeed) idle))) = []"
proof -
  let ?A = "publishEnv [''origin''] None True succeed"
  let ?B = "publishEnv [''origin''] None False succeed"
  have a1: "canPublish ?A idle" and b1: "canPublish ?B idle"
    by (simp_all add: example_defs canPublish_def truthy_def)
  have a2: "selectedRepository ?A = Some exampleRepository"
    and b2: "selectedRepository ?B = Some exampleRepository"
    by (simp_all add: publishEnv_def)
  have a3: "selectedRepositoryStatus ?A = Some untrackedStatus"
    and b3: "selectedRepositoryStatus ?B = Some untrackedStatus"
    by (simp_all add: publishEnv_def)
  have h4: "branch untrackedStatus = Some ''feature-x''"
    by (simp add: untrackedStatus_def)
  have a5: "remoteResult ?A = Inr [''origin'']" and b5: "remoteResult ?B = Inr [''origin'']"
    by (simp_all add: publishEnv_def)
  have a6: "confirmReply ?A" and b6: "\<not> confirmReply ?B"
    by (simp_all add: publishEnv_def)
  from publish_origin_feature_x [OF a1 a2 a3 h4 a5] publish_origin_feature_x [OF b1 b2 b3 h4 b5]
    a1 a2 a3 h4 a5 a6 b6
  show ?thesis by (simp add: idle_def)
qed

text \<open>
  C9. When \<^verbatim>\<open>publish\<close> passes its guard and \<^verbatim>\<open>git.remote\<close> answers a list of remotes:
  with no remote, one warning is shown, no prompt is opened, nothing is pushed and
  \<^verbatim>\<open>publish\<close> resolves; with one remote, \<^verbatim>\<open>getRemote\<close> returns it without a prompt;
  with two or more, \<^verbatim>\<open>getRemote\<close> opens one quick-open list of exactly those remotes
  and returns the one picked, and when the list is closed \<^verbatim>\<open>publish\<close> resolves with
  no further event.
\<close>

theorem publish_remote_selection:
  assumes "canPublish environment s" and "selectedRepository environment = Some repo"
    and "selectedRepositoryStatus environment = Some st" and "branch st = Some b"
    and "remoteResult environment = Inr remotes"
  shows "case remotes of
           [] \<Rightarrow>
             publish environment s =
               (Inr (),
                s\<lparr>events := events s @
                   [Remote repo, Warn ''Your repository has no remotes configured to publish to.'']\<rparr>)
         | [r] \<Rightarrow>
             getRemote environment repo b s = (Inr (Some r), s\<lparr>events := events s @ [Remote repo]\<rparr>)
         | r # r' # rest \<Rightarrow>
             getRemote environment repo b s =
               (Inr (case pickReply environment of
                       None \<Rightarrow> None
                     | Some i \<Rightarrow> if i < length remotes then Some (remotes ! i) else None),
                s\<lparr>events := events s @
                   [Remote repo, Pick (''Pick a remote to publish the branch '' @ b @ '' to:'') remotes]\<rparr>) \<and>
             (pickReply environment = None \<longrightarrow>
              publish environment s =
                (Inr (),
                 s\<lparr>events := events s @
                    [Remote repo, Pick (''Pick a remote to publish the branch '' @ b @ '' to:'') remotes]\<rparr>))"
proof (cases remotes)
  case Nil
  then show ?thesis
    using assms(5) by (simp add: publish_eligible [OF assms(1-4)] getRemote_def emit_def)
next
  case (Cons r tl)
  show ?thesis
  proof (cases tl)
    case Nil
    with Cons show ?thesis
      using assms(5) by (simp add: getRemote_def emit_def)
  next
    case (Cons r' rest)
    with \<open>remotes = r # tl\<close> have many: "remotes = r # r' # rest" by simp
    then have "2 \<le> length remotes" by simp
    note eq = getRemote_many [OF assms(5) this]
    have "pickReply environment = None \<longrightarrow>
          publish environment s =
            (Inr (),
             s\<lparr>events := events s @
                [Remote repo, Pick (''Pick a remote to publish the branch '' @ b @ '' to:'') remotes]\<rparr>)"
      by (simp add: publish_eligible [OF assms(1-4)] eq)
    with eq show ?thesis
      unfolding many list.case by (rule conjI)
  qed
qed

text \<open>
  No remote; the remote \<^verbatim>\<open>origin\<close> alone; \<^verbatim>\<open>origin\<close> and \<^verbatim>\<open>upstream\<close> with the list
  closed; and the same two with the second one picked.
\<close>

theorem publish_remote_selection_witness:
  "canPublish (publishEnv [] None True succeed) idle \<and>
   selectedRepository (publishEnv [] None True succeed) = Some exampleRepository \<and>
   selectedRepositoryStatus (publishEnv [] None True succeed) = Some untrackedStatus \<and>
   branch untrackedStatus = Some ''feature-x'' \<and>
   remoteResult (publishEnv [] None True succeed) = Inr [] \<and>
   publish (publishEnv [] None True succeed) idle =
     (Inr (),
      idle\<lparr>events := [Remote exampleRepository,
                       Warn ''Your repository has no remotes configured to publish to.'']\<rparr>) \<and>
   getRemote (publishEnv [''origin''] None True succeed) exampleRepository ''feature-x'' idle =
     (Inr (Some ''origin''), idle\<lparr>events := [Remote exampleRepository]\<rparr>) \<and>
   pickReply (publishEnv [''origin'', ''upstream''] None True succeed) = None \<and>
   publish (publishEnv [''origin'', ''upstream''] None True succeed) idle =
     (Inr (),
      idle\<lparr>events := [Remote exampleRepository,
                       Pick ''Pick a remote to publish the branch feature-x to:''
                         [''origin'', ''upstream'']]\<rparr>) \<and>
   getRemote (publishEnv [''origin'', ''upstream''] (Some 1) True succeed) exampleRepository
       ''feature-x'' idle =
     (Inr (Some ''upstream''),
      idle\<lparr>events := [Remote exampleRepository,
                       Pick ''Pick a remote to publish the branch feature-x to:''
                         [''origin'', ''upstream'']]\<rparr>)"
proof -
  have h1: "canPublish (publishEnv remotes reply True succeed) idle" for remotes reply
    by (simp add: example_defs canPublish_def truthy_def)
  have h2: "selectedRepository (publishEnv remotes reply True succeed) = Some exampleRepository"
    for remotes reply
    by (simp add: publishEnv_def)
  have h3: "selectedRepositoryStatus (publishEnv remotes reply True succeed) = Some untrackedStatus"
    for remotes reply
    by (simp add: publishEnv_def)
  have h4: "branch untrackedStatus = Some ''feature-x''"
    by (simp add: untrackedStatus_def)
  have h5: "remoteResult (publishEnv remotes reply True succeed) = Inr remotes" for remotes reply
    by (simp add: publishEnv_def)
  have h6: "pickReply (publishEnv remotes reply True succeed) = reply" for remotes reply
    by (simp add: publishEnv_def)
  have sel: "case remotes of
           [] \<Rightarrow>
             publish (publishEnv remotes reply True succeed) idle =
               (Inr (),
                idle\<lparr>events := events idle @
                   [Remote exampleRepository,
                    Warn ''Your repository has no remotes configured to publish to.'']\<rparr>)
         | [r] \<Rightarrow>
             getRemote (publishEnv remotes reply True succeed) exampleRepository ''feature-x'' idle =
               (Inr (Some r), idle\<lparr>events := events idle @ [Remote exampleRepository]\<rparr>)
         | r # r' # rest \<Rightarrow>
             getRemote (publishEnv remotes reply True succeed) exampleRepository ''feature-x'' idle =
               (Inr (case pickReply (publishEnv remotes reply True succeed) of
                       None \<Rightarrow> None
                     | Some i \<Rightarrow> if i < length remotes then Some (remotes ! i) else None),
                idle\<lparr>events := events idle @
                   [Remote exampleRepository,
                    Pick (''Pick a remote to publish the branch '' @ ''feature-x'' @ '' to:'') remotes]\<rparr>) \<and>
             (pickReply (publishEnv remotes reply True succeed) = None \<longrightarrow>
              publish (publishEnv remotes reply True succeed) idle =
                (Inr (),
                 idle\<lparr>events := events idle @
                    [Remote exampleRepository,
                     Pick (''Pick a remote to publish the branch '' @ ''feature-x'' @ '' to:'') remotes]\<rparr>))"
    for remotes reply
    by (rule publish_remote_selection [OF h1 h2 h3 h4 h5])
  note zero = sel [of "[]" None]
  note one = sel [of "[''origin'']" None]
  note two = sel [of "[''origin'', ''upstream'']" None]
  note second = sel [of "[''origin'', ''upstream'']" "Some 1"]
  from zero one two second h1 h2 h3 h4 h5 h6
  show ?thesis by (simp add: idle_def)
qed

section \<open>Containment of failures\<close>

text \<open>
  The handled path. When every rejection of \<^verbatim>\<open>git.exec\<close> is an object, with or without
  a message, \<^verbatim>\<open>sync\<close> always resolves, and \<^verbatim>\<open>publish\<close> resolves unless \<^verbatim>\<open>git.remote\<close>
  itself is rejected, in which case \<^verbatim>\<open>publish\<close> rejects with that value.
\<close>

lemma object_failures_contained:
  assumes "\<forall>repo args. execResult environment repo args \<noteq> Inl Primitive"
  shows "fst (sync environment s) = Inr () \<and>
         (fst (publish environment s) = Inr () \<or>
          (\<exists>e. remoteResult environment = Inl e \<and> fst (publish environment s) = Inl (Raised e)))"
proof
  show "fst (sync environment s) = Inr ()"
    using assms
    by (auto simp: sync_def shouldRebase_def pick_def confirm_def shouldPush_def Let_def
                   pull_contained push_contained setSyncing_def
             split: prod.splits sum.splits option.splits if_splits bool.splits)
next
  show "fst (publish environment s) = Inr () \<or>
          (\<exists>e. remoteResult environment = Inl e \<and> fst (publish environment s) = Inl (Raised e))"
    using assms
    by (auto simp: publish_def getRemote_def pick_def confirm_def Let_def push_contained
             split: prod.splits sum.splits option.splits if_splits bool.splits)
qed

text \<open>Every command is rejected with an object, and both workflows resolve.\<close>

lemma object_failures_contained_example:
  "(\<forall>repo args. execResult (syncEnv (Some 1) True (rejectAll (Object None))) repo args \<noteq> Inl Primitive) \<and>
   fst (sync (syncEnv (Some 1) True (rejectAll (Object None))) idle) = Inr () \<and>
   fst (publish (publishEnv [''origin''] None True (rejectAll (Object (Some ''rejected'')))) idle) = Inr ()"
proof -
  have a: "\<forall>repo args. execResult (syncEnv (Some 1) True (rejectAll (Object None))) repo args \<noteq> Inl Primitive"
    by (simp add: syncEnv_def rejectAll_def)
  have b: "\<forall>repo args. execResult (publishEnv [''origin''] None True (rejectAll (Object (Some ''rejected'')))) repo args \<noteq> Inl Primitive"
    by (simp add: publishEnv_def rejectAll_def)
  have c: "remoteResult (publishEnv [''origin''] None True (rejectAll (Object (Some ''rejected'')))) = Inr [''origin'']"
    by (simp add: publishEnv_def)
  from object_failures_contained [OF a, of idle] object_failures_contained [OF b, of idle] a c
  show ?thesis by simp
qed

text \<open>
  C10. No failed pull or push command should make the promise of \<^verbatim>\<open>sync\<close> or of
  \<^verbatim>\<open>publish\<close> reject: \<^verbatim>\<open>pull\<close> and \<^verbatim>\<open>push\<close> catch whatever \<^verbatim>\<open>git.exec\<close> rejects with and
  hand it to \<^verbatim>\<open>error\<close>, which takes any value. The code does not keep this for a
  rejection that is not an object: the test \<^verbatim>\<open>'message' in e\<close> of the handler raises
  inside the catch clause, and \<^verbatim>\<open>sync\<close> (on a failed pull, and on a failed pull and
  push) and \<^verbatim>\<open>publish\<close> (on a failed push) reject with that \<^verbatim>\<open>TypeError\<close>.
\<close>

theorem failures_escape:
  "fst (sync (syncEnv (Some 0) True (rejectPull Primitive)) idle) = Inl TypeError \<and>
   fst (sync (syncEnv (Some 0) True (rejectAll Primitive)) idle) = Inl TypeError \<and>
   fst (publish (publishEnv [''origin''] None True (rejectAll Primitive)) idle) = Inl TypeError"
  by (simp add: example_defs service_defs)

text \<open>At these inputs the caller of either workflow does not see it complete.\<close>

theorem failures_escape_witness:
  "fst (sync (syncEnv (Some 0) True (rejectPull Primitive)) idle) \<noteq> Inr () \<and>
   fst (sync (syncEnv (Some 0) True (rejectAll Primitive)) idle) \<noteq> Inr () \<and>
   fst (publish (publishEnv [''origin''] None True (rejectAll Primitive)) idle) \<noteq> Inr ()"
  using failures_escape by simp

end
